theory Spec2Isabelle
  imports Main "HOL-Library.Sublist"
begin

section \<open>The image service of \<^verbatim>\<open>code/app/main.go\<close>\<close>

text \<open>
  The program is a REST front end over a storage bucket. Its handlers are embedded as
  functions from a request and the server state to a response and the new server state.
  Go strings and byte slices are \<^typ>\<open>string\<close> (lists of 8-bit characters); a Go
  \<^verbatim>\<open>error\<close> is the text its \<^verbatim>\<open>Error()\<close> method returns, which is all the
  handlers ever do with one (they format it with \<^verbatim>\<open>%v\<close> or \<^verbatim>\<open>%s\<close>).
\<close>

type_synonym error = string

subsection \<open>Characters\<close>

definition dquote :: char where
  "dquote = CHR 0x22"

definition backslash :: char where
  "backslash = CHR 0x5C"

definition byte :: "char \<Rightarrow> nat" where
  "byte c = of_char c"

definition between :: "nat \<Rightarrow> nat \<Rightarrow> nat \<Rightarrow> bool" where
  "between lo hi n = (lo \<le> n \<and> n \<le> hi)"

subsection \<open>The MIME validator\<close>

text \<open>
  \<^verbatim>\<open>type MimeMap map[string]bool\<close>. \<^verbatim>\<open>Valid\<close> uses the comma-ok form of the map
  read, so it answers whether the key is present, whatever the stored value.
\<close>

type_synonym MimeMap = "string \<rightharpoonup> bool"

definition NewMimeMap :: "string list \<Rightarrow> MimeMap" where
  "NewMimeMap s = fold (\<lambda>v m. m(v \<mapsto> True)) s Map.empty"

definition Valid :: "MimeMap \<Rightarrow> string \<Rightarrow> bool" where
  "Valid m mimetype = (case m mimetype of None \<Rightarrow> False | Some _ \<Rightarrow> True)"

text \<open>\<^verbatim>\<open>strings.TrimRight(s, cutset)\<close> removes every trailing character that occurs in the cutset.\<close>

definition TrimRight :: "string \<Rightarrow> string \<Rightarrow> string" where
  "TrimRight s cutset = rev (dropWhile (\<lambda>c. c \<in> set cutset) (rev s))"

text \<open>
  \<^verbatim>\<open>for i := range m\<close> visits every key of the map once, in an order the Go runtime
  chooses. The order is an argument of the model: \<open>range_order m ks\<close> says that \<open>ks\<close> is
  one of the orders the loop can take.
\<close>

definition range_order :: "MimeMap \<Rightarrow> string list \<Rightarrow> bool" where
  "range_order m ks = (distinct ks \<and> set ks = dom m)"

definition MimeMap_List :: "MimeMap \<Rightarrow> string list \<Rightarrow> string" where
  "MimeMap_List m ks = TrimRight (fold (\<lambda>i sb. sb @ i @ '', '') ks []) '', ''"

subsection \<open>Messages and their JSON\<close>

record Message =
  Text :: string
  Details :: string

text \<open>
  \<^verbatim>\<open>json.Marshal\<close> of a struct of two strings cannot fail; it writes each string with
  the string encoder of \<^verbatim>\<open>encoding/json\<close> (HTML escaping on). That encoder copies the
  ASCII characters from space up, except the double quote, the backslash and
  \<^verbatim>\<open><\<close>, \<^verbatim>\<open>>\<close>, \<^verbatim>\<open>&\<close>, and it copies well-formed UTF-8 sequences except U+2028 and
  U+2029. The releases of the library differ in two places, which are parameters of the
  model: from Go 1.22 on, backspace and form feed are written with the two-character
  escapes, before that with six-character hexadecimal escapes; and a byte that starts
  no well-formed UTF-8 sequence is replaced by U+FFFD, written as its six-character
  escape by the original encoder and as its three UTF-8 bytes by the encoder built on
  the second version of the package.
\<close>

record Toolchain =
  short_escapes :: bool
  raw_replacement :: bool

definition hex :: string where
  "hex = ''0123456789abcdef''"

definition htmlSafe :: "char \<Rightarrow> bool" where
  "htmlSafe b = (between 0x20 0x7F (byte b) \<and> b \<noteq> dquote \<and> b \<noteq> backslash
     \<and> b \<noteq> CHR ''<'' \<and> b \<noteq> CHR ''>'' \<and> b \<noteq> CHR ''&'')"

definition escape_ascii :: "Toolchain \<Rightarrow> char \<Rightarrow> string" where
  "escape_ascii tc b =
     (if htmlSafe b then [b]
      else if b = backslash \<or> b = dquote then [backslash, b]
      else if byte b = 0x08 \<and> short_escapes tc then [backslash, CHR ''b'']
      else if byte b = 0x0C \<and> short_escapes tc then [backslash, CHR ''f'']
      else if byte b = 0x0A then [backslash, CHR ''n'']
      else if byte b = 0x0D then [backslash, CHR ''r'']
      else if byte b = 0x09 then [backslash, CHR ''t'']
      else [backslash, CHR ''u'', CHR ''0'', CHR ''0'', hex ! (byte b div 16), hex ! (byte b mod 16)])"

definition continuation :: "char \<Rightarrow> bool" where
  "continuation c = between 0x80 0xBF (byte c)"

text \<open>
  \<^verbatim>\<open>utf8.DecodeRuneInString\<close> at a byte of 0x80 or more: the length of the well-formed
  sequence that starts there, or \<open>None\<close> where Go returns \<^verbatim>\<open>(RuneError, 1)\<close>.
\<close>

fun rune_size :: "string \<Rightarrow> nat option" where
  "rune_size (b0 # b1 # rest) =
     (if between 0xC2 0xDF (byte b0) then
        (if continuation b1 then Some 2 else None)
      else if between 0xE0 0xEF (byte b0) then
        (if between (if byte b0 = 0xE0 then 0xA0 else 0x80)
                    (if byte b0 = 0xED then 0x9F else 0xBF) (byte b1)
            \<and> (case rest of [] \<Rightarrow> False | b2 # _ \<Rightarrow> continuation b2)
         then Some 3 else None)
      else if between 0xF0 0xF4 (byte b0) then
        (if between (if byte b0 = 0xF0 then 0x90 else 0x80)
                    (if byte b0 = 0xF4 then 0x8F else 0xBF) (byte b1)
            \<and> (case rest of b2 # b3 # _ \<Rightarrow> continuation b2 \<and> continuation b3 | _ \<Rightarrow> False)
         then Some 4 else None)
      else None)"
| "rune_size _ = None"

fun appendString :: "Toolchain \<Rightarrow> string \<Rightarrow> string" where
  "appendString tc [] = []"
| "appendString tc (b # bs) =
     (if byte b < 0x80 then escape_ascii tc b @ appendString tc bs
      else case rune_size (b # bs) of
        None \<Rightarrow>
          (if raw_replacement tc then [CHR 0xEF, CHR 0xBF, CHR 0xBD]
           else [backslash, CHR ''u'', CHR ''f'', CHR ''f'', CHR ''f'', CHR ''d''])
          @ appendString tc bs
      | Some n \<Rightarrow>
          (if take 3 (b # bs) = [CHR 0xE2, CHR 0x80, CHR 0xA8] then
             [backslash, CHR ''u'', CHR ''2'', CHR ''0'', CHR ''2'', CHR ''8'']
           else if take 3 (b # bs) = [CHR 0xE2, CHR 0x80, CHR 0xA9] then
             [backslash, CHR ''u'', CHR ''2'', CHR ''0'', CHR ''2'', CHR ''9'']
           else take n (b # bs))
          @ appendString tc (drop (n - 1) bs))"

definition json_string :: "Toolchain \<Rightarrow> string \<Rightarrow> string" where
  "json_string tc s = [dquote] @ appendString tc s @ [dquote]"

definition json_Marshal :: "Toolchain \<Rightarrow> Message \<Rightarrow> error + string" where
  \<open>json_Marshal tc m =
     Inr (''{"text":'' @ json_string tc (Text m) @ '',"details":'' @ json_string tc (Details m) @ ''}'')\<close>

definition Message_JSON :: "Toolchain \<Rightarrow> Message \<Rightarrow> error + string" where
  "Message_JSON tc m =
     (case json_Marshal tc m of
        Inl err \<Rightarrow> Inl (''could not marshal json for response: '' @ err)
      | Inr bytes \<Rightarrow> Inr bytes)"

subsection \<open>Requests, responses and the server state\<close>

text \<open>
  A request, as the handlers read it: the route variable \<^verbatim>\<open>mux.Vars(r)["id"]\<close>, what
  \<^verbatim>\<open>r.ParseMultipartForm\<close> returns, and what \<^verbatim>\<open>r.FormFile("myFile")\<close> returns: an
  error, or the file with its header. Of the header the handlers read the file name and
  \<^verbatim>\<open>Header.Get("Content-Type")\<close>.
\<close>

record FileHeader =
  Filename :: string
  ContentType :: string
  content :: string

record Request =
  vars_id :: string
  ParseMultipartForm :: "error option"
  FormFile :: "error + FileHeader"

text \<open>
  A response: the headers the handler sets on its \<^verbatim>\<open>http.ResponseWriter\<close>, the status
  it passes to \<^verbatim>\<open>WriteHeader\<close>, the bytes it passes to \<^verbatim>\<open>Write\<close> (\<open>written\<close>) and the
  body that the server of \<^verbatim>\<open>net/http\<close> sends (\<open>body\<close>). For a status that allows no
  body (1xx, 204, 304) \<^verbatim>\<open>Write\<close> sends nothing and returns \<^verbatim>\<open>ErrBodyNotAllowed\<close>, which
  \<^verbatim>\<open>writeResponse\<close> does not look at.
\<close>

record Response =
  status :: nat
  headers :: "(string \<times> string) list"
  written :: string
  body :: string

definition bodyAllowedForStatus :: "nat \<Rightarrow> bool" where
  "bodyAllowedForStatus st = (\<not> between 100 199 st \<and> st \<noteq> 204 \<and> st \<noteq> 304)"

text \<open>
  The operations on the package variable \<^verbatim>\<open>cs\<close> that the handlers call. The server
  state holds the state of the storage behind \<^verbatim>\<open>cs\<close>, the calls made on it so far
  (oldest first) and the lines written to the log. A log line is kept as the call that
  produces its text: \<open>Sprintf msg\<close> stands for the line that \<^verbatim>\<open>weblog\<close> writes for
  \<^verbatim>\<open>fmt.Sprintf(msg)\<close>; how \<^verbatim>\<open>fmt\<close> expands the verbs in \<open>msg\<close> is not modelled.
\<close>

datatype fmt_call = Sprintf string

datatype call =
  ListCall
| ReadCall string
| CreateCall string string
| DeleteCall string

record 's Server =
  store :: 's
  calls :: "call list"
  logged :: "fmt_call list"

text \<open>
  The parts of the package that are not in \<^verbatim>\<open>main.go\<close> are parameters: the four
  operations of \<^verbatim>\<open>CloudStorage\<close> over a storage state \<^typ>\<open>'s\<close> with object descriptors
  \<^typ>\<open>'d\<close>, the image mapper \<^verbatim>\<open>NewImages\<close> and the \<^verbatim>\<open>JSON\<close> methods of an image and
  of a list of images (\<^typ>\<open>'i\<close> is the type of an image).
\<close>

record ('s, 'd, 'i) Package =
  cs_List :: "'s \<Rightarrow> (error + 'd list) \<times> 's"
  cs_Read :: "string \<Rightarrow> 's \<Rightarrow> (error + 'd list) \<times> 's"
  cs_Create :: "string \<Rightarrow> string \<Rightarrow> 's \<Rightarrow> error option \<times> 's"
  cs_Delete :: "string \<Rightarrow> 's \<Rightarrow> error option \<times> 's"
  NewImages :: "'d list \<Rightarrow> error + 'i list"
  Image_JSON :: "'i \<Rightarrow> error + string"
  Images_JSON :: "'i list \<Rightarrow> error + string"

definition call_List :: "('s, 'd, 'i) Package \<Rightarrow> 's Server \<Rightarrow> (error + 'd list) \<times> 's Server" where
  "call_List p srv =
     (case cs_List p (store srv) of
        (r, s') \<Rightarrow> (r, srv\<lparr>store := s', calls := calls srv @ [ListCall]\<rparr>))"

definition call_Read :: "('s, 'd, 'i) Package \<Rightarrow> string \<Rightarrow> 's Server \<Rightarrow> (error + 'd list) \<times> 's Server" where
  "call_Read p id' srv =
     (case cs_Read p id' (store srv) of
        (r, s') \<Rightarrow> (r, srv\<lparr>store := s', calls := calls srv @ [ReadCall id']\<rparr>))"

definition call_Create :: "('s, 'd, 'i) Package \<Rightarrow> string \<Rightarrow> string \<Rightarrow> 's Server \<Rightarrow> error option \<times> 's Server" where
  "call_Create p name file srv =
     (case cs_Create p name file (store srv) of
        (r, s') \<Rightarrow> (r, srv\<lparr>store := s', calls := calls srv @ [CreateCall name file]\<rparr>))"

definition call_Delete :: "('s, 'd, 'i) Package \<Rightarrow> string \<Rightarrow> 's Server \<Rightarrow> error option \<times> 's Server" where
  "call_Delete p id' srv =
     (case cs_Delete p id' (store srv) of
        (r, s') \<Rightarrow> (r, srv\<lparr>store := s', calls := calls srv @ [DeleteCall id']\<rparr>))"

subsection \<open>The response writer\<close>

definition StatusOK :: nat where "StatusOK = 200"
definition StatusCreated :: nat where "StatusCreated = 201"
definition StatusNoContent :: nat where "StatusNoContent = 204"
definition StatusInternalServerError :: nat where "StatusInternalServerError = 500"

definition writeResponse :: "nat \<Rightarrow> string \<Rightarrow> 's Server \<Rightarrow> Response \<times> 's Server" where
  "writeResponse st msg srv =
     (\<lparr>status = st,
       headers = [(''Content-Type'', ''application/json; charset=utf-8''),
                  (''Access-Control-Allow-Headers'',
                   ''Content-Type,access-control-allow-origin, access-control-allow-headers'')],
       written = msg,
       body = (if bodyAllowedForStatus st then msg else [])\<rparr>,
      if st \<noteq> StatusOK then srv\<lparr>logged := logged srv @ [Sprintf msg]\<rparr> else srv)"

definition writeErrorMsg :: "error \<Rightarrow> 's Server \<Rightarrow> Response \<times> 's Server" where
  \<open>writeErrorMsg err srv =
     writeResponse StatusInternalServerError (''{"error":"'' @ err @ ''"}'') srv\<close>

definition writeJSON :: "('j \<Rightarrow> error + string) \<Rightarrow> 'j \<Rightarrow> nat \<Rightarrow> 's Server \<Rightarrow> Response \<times> 's Server" where
  "writeJSON JSON j st srv =
     (case JSON j of
        Inl err \<Rightarrow> writeErrorMsg err srv
      | Inr json \<Rightarrow> writeResponse st json srv)"

subsection \<open>The handlers\<close>

definition allowed_types :: "string list" where
  "allowed_types = [''image/png'', ''image/jpeg'', ''image/gif'']"

definition listHandler :: "('s, 'd, 'i) Package \<Rightarrow> 's Server \<Rightarrow> Response \<times> 's Server" where
  "listHandler p srv =
     (case call_List p srv of
        (Inl err, srv1) \<Rightarrow> writeErrorMsg (''failed to list files: '' @ err) srv1
      | (Inr fs, srv1) \<Rightarrow>
          (case NewImages p fs of
             Inl err \<Rightarrow> writeErrorMsg (''failed to convert files to images images: '' @ err) srv1
           | Inr is \<Rightarrow> writeJSON (Images_JSON p) is StatusOK srv1))"

text \<open>The second argument of \<open>createHandler\<close> is the order in which \<^verbatim>\<open>List\<close> ranges over the map.\<close>

definition createHandler ::
  "('s, 'd, 'i) Package \<Rightarrow> string list \<Rightarrow> Request \<Rightarrow> 's Server \<Rightarrow> Response \<times> 's Server" where
  "createHandler p ks r srv =
     (case FormFile r of
        Inl err \<Rightarrow> writeErrorMsg (''error retrieving file: '' @ err) srv
      | Inr handler \<Rightarrow>
          (let mimemap = NewMimeMap allowed_types;
               mimetype = ContentType handler
           in if \<not> Valid mimemap mimetype then
                (let mimelist = MimeMap_List mimemap ks
                 in writeErrorMsg
                      (''invalid image type, want one of '' @ mimelist @ '' got : '' @ mimetype) srv)
              else
                (case call_Create p (Filename handler) (content handler) srv of
                   (Some err, srv1) \<Rightarrow> writeErrorMsg (''image couldn't be created: '' @ err) srv1
                 | (None, srv1) \<Rightarrow> writeResponse StatusCreated [] srv1)))"

definition updateHandler ::
  "('s, 'd, 'i) Package \<Rightarrow> Request \<Rightarrow> 's Server \<Rightarrow> Response \<times> 's Server" where
  "updateHandler p r srv =
     (let id' = vars_id r
      in case FormFile r of
           Inl err \<Rightarrow> writeErrorMsg (''error retrieving file: '' @ err) srv
         | Inr handler \<Rightarrow>
             (case call_Delete p id' srv of
                (Some err, srv1) \<Rightarrow> writeErrorMsg (''error replacing file: '' @ err) srv1
              | (None, srv1) \<Rightarrow>
                  (case call_Create p (Filename handler) (content handler) srv1 of
                     (Some err, srv2) \<Rightarrow> writeErrorMsg (''image couldn't be created: '' @ err) srv2
                   | (None, srv2) \<Rightarrow> writeResponse StatusOK [] srv2)))"

definition readHandler ::
  "('s, 'd, 'i) Package \<Rightarrow> Request \<Rightarrow> 's Server \<Rightarrow> Response \<times> 's Server" where
  "readHandler p r srv =
     (let id' = vars_id r
      in case call_Read p id' srv of
           (Inl err, srv1) \<Rightarrow> writeErrorMsg (''failed to read files '' @ id' @ '': '' @ err) srv1
         | (Inr fs, srv1) \<Rightarrow>
             (case NewImages p fs of
                Inl err \<Rightarrow> writeErrorMsg (''failed to convert files to images images: '' @ err) srv1
              | Inr is \<Rightarrow>
                  if length is < 1 then writeResponse StatusNoContent [] srv1
                  else writeJSON (Image_JSON p) (is ! 0) StatusOK srv1))"

text \<open>The first argument of \<open>deleteHandler\<close> is the release of \<^verbatim>\<open>encoding/json\<close> it is built with.\<close>

definition deleteHandler ::
  "Toolchain \<Rightarrow> ('s, 'd, 'i) Package \<Rightarrow> Request \<Rightarrow> 's Server \<Rightarrow> Response \<times> 's Server" where
  "deleteHandler tc p r srv =
     (let id' = vars_id r
      in case call_Delete p id' srv of
           (Some err, srv1) \<Rightarrow> writeErrorMsg err srv1
         | (None, srv1) \<Rightarrow>
             (let msg = \<lparr>Text = ''image deleted'', Details = ''image id: '' @ id'\<rparr>
              in writeJSON (Message_JSON tc) msg StatusNoContent srv1))"

subsection \<open>The request, as \<^verbatim>\<open>net/http\<close> reads it\<close>









subsection \<open>JSON documents of the error shape\<close>

text \<open>
  The body that the interface promises on a failure: the object with the one member
  \<^verbatim>\<open>"error"\<close> whose value is a JSON string. \<open>json_string_rest\<close> reads a JSON string
  (RFC 8259) from behind its opening quote and returns what follows its closing quote;
  it fails on an unescaped control character, on a backslash that starts no escape and
  when the closing quote is missing.
\<close>

definition hexdigit :: "char \<Rightarrow> bool" where
  "hexdigit c = (c \<in> set ''0123456789abcdefABCDEF'')"

fun json_string_rest :: "string \<Rightarrow> string option" where
  "json_string_rest [] = None"
| "json_string_rest (c # cs) =
     (if c = dquote then Some cs
      else if c = backslash then
        (case cs of
           [] \<Rightarrow> None
         | e # es \<Rightarrow>
             if e \<in> set [dquote, backslash, CHR ''/'', CHR ''b'', CHR ''f'', CHR ''n'', CHR ''r'', CHR ''t'']
             then json_string_rest es
             else if e = CHR ''u'' \<and> 4 \<le> length es \<and> list_all hexdigit (take 4 es)
             then json_string_rest (drop 4 es)
             else None)
      else if byte c < 0x20 then None
      else json_string_rest cs)"

definition error_object :: "string \<Rightarrow> bool" where
  \<open>error_object b =
     (take 9 b = ''{"error":'' \<and>
      (case drop 9 b of [] \<Rightarrow> False | q # t \<Rightarrow> q = dquote \<and> json_string_rest t = Some ''}''))\<close>

subsection \<open>A storage gateway and an image mapper after the specification\<close>

text \<open>
  Modelled from the spec: the object descriptor of section 3 (\<^verbatim>\<open>CloudStorage\<close> and its
  descriptor type are not in \<^verbatim>\<open>main.go\<close>). A descriptor identifies a stored file by its
  name, which is also its id, and carries the content. The content type that the spec
  also lists is left out: no operation of the gateway receives one.
\<close>

record ObjectDescriptor =
  od_name :: string
  od_content :: string

text \<open>
  Modelled from the spec: the state of the object store behind the Storage Gateway of
  section 4.2, which is not in \<^verbatim>\<open>main.go\<close>. The bucket holds the objects by name. Any
  call may fail for reasons of the backend; \<open>faults\<close> is the script of those outcomes,
  one entry per coming call (\<open>None\<close>: the backend has nothing to report).
\<close>

record Bucket =
  objects :: "(string \<times> string) list"
  faults :: "error option list"

text \<open>
  Modelled from the spec: what the backend reports for the next call on the gateway
  (section 4.2 leaves the failures to the backend). The call takes the next entry of the
  script; a call after the end of the script succeeds.
\<close>

definition next_fault :: "Bucket \<Rightarrow> error option \<times> Bucket" where
  "next_fault b = (case faults b of [] \<Rightarrow> (None, b) | f # fs \<Rightarrow> (f, b\<lparr>faults := fs\<rparr>))"

text \<open>
  Modelled from the spec: \<^verbatim>\<open>List\<close> of the Storage Gateway (section 4.2; \<^verbatim>\<open>CloudStorage\<close>
  is not in \<^verbatim>\<open>main.go\<close>). It returns all objects of the bucket, or the error of the
  backend.
\<close>

definition bucket_List :: "Bucket \<Rightarrow> (error + ObjectDescriptor list) \<times> Bucket" where
  "bucket_List b =
     (case next_fault b of
        (Some e, b') \<Rightarrow> (Inl e, b')
      | (None, b') \<Rightarrow> (Inr (map (\<lambda>(n, c). \<lparr>od_name = n, od_content = c\<rparr>) (objects b')), b'))"

text \<open>
  Modelled from the spec: \<^verbatim>\<open>Read\<close> of the Storage Gateway (section 4.2; not in
  \<^verbatim>\<open>main.go\<close>). It returns zero or one descriptor; no object under the id is not an
  error.
\<close>

definition bucket_Read :: "string \<Rightarrow> Bucket \<Rightarrow> (error + ObjectDescriptor list) \<times> Bucket" where
  "bucket_Read id' b =
     (case next_fault b of
        (Some e, b') \<Rightarrow> (Inl e, b')
      | (None, b') \<Rightarrow>
          (Inr (case map_of (objects b') id' of
                  None \<Rightarrow> []
                | Some c \<Rightarrow> [\<lparr>od_name = id', od_content = c\<rparr>]), b'))"

text \<open>
  Modelled from the spec: \<^verbatim>\<open>Create\<close> of the Storage Gateway (section 4.2; not in
  \<^verbatim>\<open>main.go\<close>). It stores the content under the name, in place of an object of that
  name; on an error of the backend nothing is written.
\<close>

definition bucket_Create :: "string \<Rightarrow> string \<Rightarrow> Bucket \<Rightarrow> error option \<times> Bucket" where
  "bucket_Create name file b =
     (case next_fault b of
        (Some e, b') \<Rightarrow> (Some e, b')
      | (None, b') \<Rightarrow>
          (None, b'\<lparr>objects := filter (\<lambda>(n, c). n \<noteq> name) (objects b') @ [(name, file)]\<rparr>))"

text \<open>
  Modelled from the spec: \<^verbatim>\<open>Delete\<close> of the Storage Gateway (section 4.2; not in
  \<^verbatim>\<open>main.go\<close>). It removes the named object; on an error of the backend nothing is
  removed.
\<close>

definition bucket_Delete :: "string \<Rightarrow> Bucket \<Rightarrow> error option \<times> Bucket" where
  "bucket_Delete id' b =
     (case next_fault b of
        (Some e, b') \<Rightarrow> (Some e, b')
      | (None, b') \<Rightarrow> (None, b'\<lparr>objects := filter (\<lambda>(n, c). n \<noteq> id') (objects b')\<rparr>))"

text \<open>
  Modelled from the spec: the image of section 3 (its type is not in \<^verbatim>\<open>main.go\<close>), with
  the identifier, the display name and the content.
\<close>

record Image =
  img_id :: string
  img_name :: string
  img_content :: string

text \<open>
  Modelled from the spec: the image of one descriptor (section 3: every image is
  derived from exactly one descriptor); it carries the descriptor's name and content.
\<close>

definition NewImage :: "ObjectDescriptor \<Rightarrow> error + Image" where
  "NewImage d = Inr \<lparr>img_id = od_name d, img_name = od_name d, img_content = od_content d\<rparr>"

text \<open>
  Modelled from the spec: the Image Mapper of section 4.3 (\<^verbatim>\<open>NewImages\<close> is not in
  \<^verbatim>\<open>main.go\<close>). It maps the descriptors in input order and returns the first failure,
  with no partial result.
\<close>

fun map_images :: "('d \<Rightarrow> error + 'i) \<Rightarrow> 'd list \<Rightarrow> error + 'i list" where
  "map_images f [] = Inr []"
| "map_images f (d # ds) =
     (case f d of
        Inl e \<Rightarrow> Inl e
      | Inr i \<Rightarrow> (case map_images f ds of Inl e \<Rightarrow> Inl e | Inr is \<Rightarrow> Inr (i # is)))"

text \<open>
  Modelled from the spec: the package with the gateway and the mapper above. The spec
  leaves the JSON of an image open, so the two \<^verbatim>\<open>JSON\<close> methods stay parameters.
\<close>

definition bucket_package ::
  "(Image \<Rightarrow> error + string) \<Rightarrow> (Image list \<Rightarrow> error + string) \<Rightarrow> (Bucket, ObjectDescriptor, Image) Package" where
  "bucket_package J Js =
     \<lparr>cs_List = bucket_List, cs_Read = bucket_Read, cs_Create = bucket_Create,
      cs_Delete = bucket_Delete, NewImages = map_images NewImage, Image_JSON = J, Images_JSON = Js\<rparr>"

subsection \<open>Example inputs\<close>

text \<open>
  The inputs of the closed examples below: the package over the bucket, with an image
  serialised as its bare content; a server over a bucket with the given objects and
  fault script, before any call; a request that carries a file; a request without a
  multipart body, for which both the parse and the file extraction report an error; a
  request as it comes from the server; a form with one file under \<^verbatim>\<open>myFile\<close>; and a
  release of \<^verbatim>\<open>encoding/json\<close>.
\<close>

definition demo_package :: "(Bucket, ObjectDescriptor, Image) Package" where
  "demo_package = bucket_package (\<lambda>i. Inr (img_content i)) (\<lambda>is. Inr (concat (map img_content is)))"

definition server :: "(string \<times> string) list \<Rightarrow> error option list \<Rightarrow> Bucket Server" where
  "server os fs = \<lparr>store = \<lparr>objects = os, faults = fs\<rparr>, calls = [], logged = []\<rparr>"

definition upload :: "string \<Rightarrow> string \<Rightarrow> string \<Rightarrow> string \<Rightarrow> Request" where
  "upload id' name type bytes =
     \<lparr>vars_id = id', ParseMultipartForm = None,
      FormFile = Inr \<lparr>Filename = name, ContentType = type, content = bytes\<rparr>\<rparr>"




definition bare :: "string \<Rightarrow> Request" where
  "bare id' =
     \<lparr>vars_id = id',
      ParseMultipartForm = Some ''request Content-Type isn't multipart/form-data'',
      FormFile = Inl ''request Content-Type isn't multipart/form-data''\<rparr>"

section \<open>Properties\<close>

subsection \<open>Unfolding sets and basic facts\<close>

lemmas demo_defs = between_def demo_package_def bucket_package_def server_def upload_def bare_def
  bucket_Delete_def bucket_Create_def bucket_Read_def bucket_List_def next_fault_def

lemmas handler_defs = deleteHandler_def createHandler_def updateHandler_def readHandler_def
  listHandler_def call_Delete_def call_Create_def call_Read_def call_List_def writeJSON_def
  writeErrorMsg_def writeResponse_def StatusNoContent_def StatusOK_def StatusCreated_def
  StatusInternalServerError_def bodyAllowedForStatus_def Let_def


lemmas mime_defs = allowed_types_def NewMimeMap_def Valid_def MimeMap_List_def TrimRight_def

lemma NewMimeMap_fold:
  "fold (\<lambda>v m. m(v \<mapsto> True)) s m0 c = (if c \<in> set s then Some True else m0 c)"
  by (induction s arbitrary: m0) auto

lemma dom_NewMimeMap: "dom (NewMimeMap s) = set s"
  by (auto simp: NewMimeMap_def NewMimeMap_fold dom_def)

lemma Valid_iff: "Valid (NewMimeMap s) c = (c \<in> set s)"
  by (simp add: Valid_def NewMimeMap_def NewMimeMap_fold)

lemma fst_writeResponse:
  "fst (writeResponse st msg srv) =
     \<lparr>status = st,
      headers = [(''Content-Type'', ''application/json; charset=utf-8''),
                 (''Access-Control-Allow-Headers'',
                  ''Content-Type,access-control-allow-origin, access-control-allow-headers'')],
      written = msg,
      body = (if bodyAllowedForStatus st then msg else [])\<rparr>"
  by (simp add: writeResponse_def)

lemma body_allowed [simp]:
  "bodyAllowedForStatus 200" "bodyAllowedForStatus 201" "bodyAllowedForStatus 500"
  "\<not> bodyAllowedForStatus 204"
  by (simp_all add: bodyAllowedForStatus_def between_def)

lemma writeErrorMsg_status: "status (fst (writeErrorMsg e srv)) = 500"
  by (simp add: writeErrorMsg_def writeResponse_def StatusInternalServerError_def)

lemma writeErrorMsg_body: \<open>body (fst (writeErrorMsg e srv)) = ''{"error":"'' @ e @ ''"}''\<close>
  by (simp add: writeErrorMsg_def writeResponse_def StatusInternalServerError_def)


lemma writeErrorMsg_calls: "calls (snd (writeErrorMsg e srv)) = calls srv"
  by (simp add: writeErrorMsg_def writeResponse_def StatusInternalServerError_def StatusOK_def)

lemma writeErrorMsg_store: "store (snd (writeErrorMsg e srv)) = store srv"
  by (simp add: writeErrorMsg_def writeResponse_def StatusInternalServerError_def StatusOK_def)

lemma call_Read_eq:
  "cs_Read p i (store srv) = (res, s1) \<Longrightarrow>
   call_Read p i srv = (res, srv\<lparr>store := s1, calls := calls srv @ [ReadCall i]\<rparr>)"
  by (simp add: call_Read_def)

lemma call_Delete_eq:
  "cs_Delete p i (store srv) = (res, s1) \<Longrightarrow>
   call_Delete p i srv = (res, srv\<lparr>store := s1, calls := calls srv @ [DeleteCall i]\<rparr>)"
  by (simp add: call_Delete_def)

lemma call_Create_eq:
  "cs_Create p n f (store srv) = (res, s1) \<Longrightarrow>
   call_Create p n f srv = (res, srv\<lparr>store := s1, calls := calls srv @ [CreateCall n f]\<rparr>)"
  by (simp add: call_Create_def)

subsection \<open>The rendered allow-list\<close>

lemma sublist_mid: "sublist b (a @ b @ c)"
  by (metis sublist_appendI)

lemma fold_builder:
  "fold (\<lambda>i sb. sb @ i @ sep) ks acc = acc @ concat (map (\<lambda>i. i @ sep) ks)"
  by (induction ks arbitrary: acc) simp_all

lemma sublist_joined: "t \<in> set ks \<Longrightarrow> sublist t (concat (map (\<lambda>i. i @ sep) ks))"
proof (induction ks)
  case Nil
  then show ?case by simp
next
  case (Cons k ks)
  show ?case
  proof (cases "t = k")
    case True
    have "concat (map (\<lambda>i. i @ sep) (k # ks)) = [] @ t @ (sep @ concat (map (\<lambda>i. i @ sep) ks))"
      using True by simp
    then show ?thesis by (simp only: sublist_mid)
  next
    case False
    with Cons have "sublist t (concat (map (\<lambda>i. i @ sep) ks))" by simp
    then show ?thesis by (simp add: sublist_append)
  qed
qed

lemma TrimRight_keeps:
  assumes "t \<noteq> []" and "last t \<notin> set cutset" and "sublist t s"
  shows "sublist t (TrimRight s cutset)"
proof -
  from assms(3) obtain pre post where s: "s = pre @ t @ post"
    by (auto simp: sublist_def)
  from assms(1) obtain t0 c where t: "t = t0 @ [c]"
    by (metis append_butlast_last_id)
  with assms(2) have c: "c \<notin> set cutset" by simp
  have "dropWhile (\<lambda>c. c \<in> set cutset) (rev s) =
      dropWhile (\<lambda>c. c \<in> set cutset) (rev post) @ rev t @ rev pre"
    using c by (simp add: s t dropWhile_append)
  then have "TrimRight s cutset = pre @ t @ rev (dropWhile (\<lambda>c. c \<in> set cutset) (rev post))"
    by (simp add: TrimRight_def)
  then show ?thesis by (simp only: sublist_mid)
qed

lemma List_names_all:
  assumes "range_order (NewMimeMap allowed_types) ks"
  shows "list_all (\<lambda>t. sublist t (MimeMap_List (NewMimeMap allowed_types) ks)) allowed_types"
proof -
  have ks: "set ks = set allowed_types"
    using assms by (simp add: range_order_def dom_NewMimeMap)
  have "sublist t (MimeMap_List (NewMimeMap allowed_types) ks)" if "t \<in> set allowed_types" for t
  proof -
    have 0: "t \<noteq> []" and 1: "last t \<notin> set '', ''"
      using that by (auto simp: allowed_types_def)
    have 2: "sublist t (fold (\<lambda>i sb. sb @ i @ '', '') ks [])"
      using that ks sublist_joined [of t ks "'', ''"] by (simp only: fold_builder append_Nil)
    show ?thesis
      unfolding MimeMap_List_def by (rule TrimRight_keeps [OF 0 1 2])
  qed
  then show ?thesis by (simp add: list_all_iff)
qed

subsection \<open>The MIME validator and the create route\<close>

text \<open>
  Claim C2. For every list \<open>s\<close> and every candidate \<open>c\<close>, \<^verbatim>\<open>NewMimeMap(s).Valid(c)\<close> is
  true exactly when \<open>c\<close> is equal, character for character, to an element of \<open>s\<close>; with
  the empty list it is false for every candidate.
\<close>

theorem Valid_NewMimeMap:
  "Valid (NewMimeMap s) c = (c \<in> set s) \<and> Valid (NewMimeMap []) c = False"
  by (simp add: Valid_iff)

theorem Valid_NewMimeMap_witness:
  "Valid (NewMimeMap [''image/png'', ''image/gif'', ''image/png'']) ''image/gif''
   \<and> Valid (NewMimeMap [''image/png'']) ''IMAGE/PNG'' = False
   \<and> Valid (NewMimeMap [''image/png'']) ''image/png '' = False
   \<and> Valid (NewMimeMap []) ''image/png'' = False"
  using Valid_NewMimeMap [of "[''image/png'', ''image/gif'', ''image/png'']" "''image/gif''"]
    Valid_NewMimeMap [of "[''image/png'']" "''IMAGE/PNG''"]
    Valid_NewMimeMap [of "[''image/png'']" "''image/png ''"]
    Valid_NewMimeMap [of "[]" "''image/png''"]
  by simp

text \<open>
  Claim C1. When the uploaded file of a \<^verbatim>\<open>POST /api/v1/image\<close> request has a content type
  outside the allow-list \<^verbatim>\<open>image/png\<close>, \<^verbatim>\<open>image/jpeg\<close>, \<^verbatim>\<open>image/gif\<close>, the handler
  answers with status 500 and a body that contains \<^verbatim>\<open>invalid image type\<close>, the rendered
  allow-list and \<^verbatim>\<open>got : \<close> followed by the offending type, and it makes no call on the
  storage gateway: the call trace and the storage are as before. The rendered allow-list
  names every allowed type, whatever order the map is ranged over.
\<close>

theorem createHandler_rejects_type:
  assumes "FormFile r = Inr h" and "ContentType h \<notin> set allowed_types"
  shows "status (fst (createHandler p ks r srv)) = 500
    \<and> sublist ''invalid image type'' (body (fst (createHandler p ks r srv)))
    \<and> sublist (MimeMap_List (NewMimeMap allowed_types) ks) (body (fst (createHandler p ks r srv)))
    \<and> sublist (''got : '' @ ContentType h) (body (fst (createHandler p ks r srv)))
    \<and> calls (snd (createHandler p ks r srv)) = calls srv
    \<and> store (snd (createHandler p ks r srv)) = store srv
    \<and> (range_order (NewMimeMap allowed_types) ks \<longrightarrow>
         list_all (\<lambda>t. sublist t (MimeMap_List (NewMimeMap allowed_types) ks)) allowed_types)"
proof -
  let ?l = "MimeMap_List (NewMimeMap allowed_types) ks"
  let ?msg = "''invalid image type, want one of '' @ ?l @ '' got : '' @ ContentType h"
  let ?body = "body (fst (createHandler p ks r srv))"
  have nv: "\<not> Valid (NewMimeMap allowed_types) (ContentType h)"
    using assms(2) by (simp add: Valid_iff)
  have eq: "createHandler p ks r srv = writeErrorMsg ?msg srv"
    using assms(1) nv by (simp add: createHandler_def Let_def)
  have b: \<open>?body = ''{"error":"'' @ ?msg @ ''"}''\<close>
    by (simp only: eq writeErrorMsg_body)
  have s1: "sublist ''invalid image type'' ?body"
  proof -
    have \<open>?body = ''{"error":"'' @ ''invalid image type''
        @ ('', want one of '' @ ?l @ '' got : '' @ ContentType h @ ''"}'')\<close>
      unfolding b by simp
    then show ?thesis by (simp only: sublist_mid)
  qed
  have s2: "sublist ?l ?body"
  proof -
    have \<open>?body = (''{"error":"'' @ ''invalid image type, want one of '') @ ?l
        @ ('' got : '' @ ContentType h @ ''"}'')\<close>
      unfolding b by simp
    then show ?thesis by (simp only: sublist_mid)
  qed
  have s3: "sublist (''got : '' @ ContentType h) ?body"
  proof -
    have \<open>?body = (''{"error":"'' @ ''invalid image type, want one of '' @ ?l @ '' '')
        @ (''got : '' @ ContentType h) @ ''"}''\<close>
      unfolding b by simp
    then show ?thesis by (simp only: sublist_mid)
  qed
  have s4: "calls (snd (createHandler p ks r srv)) = calls srv
      \<and> store (snd (createHandler p ks r srv)) = store srv
      \<and> status (fst (createHandler p ks r srv)) = 500"
    by (simp add: eq writeErrorMsg_status writeErrorMsg_calls writeErrorMsg_store)
  show ?thesis
    using s1 s2 s3 s4 List_names_all [of ks] by blast
qed

theorem createHandler_rejects_type_witness:
  \<open>FormFile (upload [] ''page.html'' ''text/html'' ''<html>'')
      = Inr \<lparr>Filename = ''page.html'', ContentType = ''text/html'', content = ''<html>''\<rparr>
   \<and> ''text/html'' \<notin> set allowed_types
   \<and> range_order (NewMimeMap allowed_types) [''image/gif'', ''image/png'', ''image/jpeg'']
   \<and> status (fst (createHandler demo_package [''image/gif'', ''image/png'', ''image/jpeg'']
        (upload [] ''page.html'' ''text/html'' ''<html>'') (server [] []))) = 500
   \<and> body (fst (createHandler demo_package [''image/gif'', ''image/png'', ''image/jpeg'']
        (upload [] ''page.html'' ''text/html'' ''<html>'') (server [] []))) =
      ''{"error":"invalid image type, want one of image/gif, image/png, image/jpeg got : text/html"}''
   \<and> sublist ''got : text/html'' (body (fst (createHandler demo_package [''image/gif'', ''image/png'', ''image/jpeg'']
        (upload [] ''page.html'' ''text/html'' ''<html>'') (server [] []))))
   \<and> list_all (\<lambda>t. sublist t (MimeMap_List (NewMimeMap allowed_types) [''image/gif'', ''image/png'', ''image/jpeg'']))
        allowed_types
   \<and> calls (snd (createHandler demo_package [''image/gif'', ''image/png'', ''image/jpeg'']
        (upload [] ''page.html'' ''text/html'' ''<html>'') (server [] []))) = []
   \<and> objects (store (snd (createHandler demo_package [''image/gif'', ''image/png'', ''image/jpeg'']
        (upload [] ''page.html'' ''text/html'' ''<html>'') (server [] [])))) = []\<close>
proof -
  let ?r = "upload [] ''page.html'' ''text/html'' ''<html>''"
  let ?h = "\<lparr>Filename = ''page.html'', ContentType = ''text/html'', content = ''<html>''\<rparr>"
  let ?ks = "[''image/gif'', ''image/png'', ''image/jpeg'']"
  have f: "FormFile ?r = Inr ?h"
    by (simp add: upload_def)
  have n: "ContentType ?h \<notin> set allowed_types"
    by (simp add: allowed_types_def)
  have o: "range_order (NewMimeMap allowed_types) ?ks"
    by (auto simp add: range_order_def dom_NewMimeMap allowed_types_def)
  have b: \<open>body (fst (createHandler demo_package ?ks ?r (server [] []))) =
      ''{"error":"invalid image type, want one of image/gif, image/png, image/jpeg got : text/html"}''\<close>
    by (simp add: demo_defs handler_defs mime_defs)
  have c: "calls (server [] []) = [] \<and> objects (store (server [] [])) = []"
    by (simp add: server_def)
  from createHandler_rejects_type [OF f n, of demo_package ?ks "server [] []"] f n o b c
  show ?thesis by simp
qed

subsection \<open>Requests without a usable file\<close>










subsection \<open>The read route\<close>

text \<open>
  Claim C3. When \<^verbatim>\<open>Read\<close> returns no descriptor and no error for the id of a
  \<^verbatim>\<open>GET /api/v1/image/{id}\<close> request, and the image mapper maps the empty sequence to the
  empty sequence, the response has status 204 and an empty body; the one gateway call
  made is that \<^verbatim>\<open>Read\<close>.
\<close>

theorem readHandler_no_content:
  assumes "cs_Read p (vars_id r) (store srv) = (Inr [], s1)" and "NewImages p [] = Inr []"
  shows "status (fst (readHandler p r srv)) = 204
    \<and> body (fst (readHandler p r srv)) = []
    \<and> calls (snd (readHandler p r srv)) = calls srv @ [ReadCall (vars_id r)]"
  using assms
  by (simp add: readHandler_def Let_def call_Read_eq writeResponse_def StatusNoContent_def StatusOK_def)

theorem readHandler_no_content_witness:
  "cs_Read demo_package ''ghost.png'' (store (server [(''cat.png'', ''x'')] []))
      = (Inr [], \<lparr>objects = [(''cat.png'', ''x'')], faults = []\<rparr>)
   \<and> NewImages demo_package [] = Inr []
   \<and> status (fst (readHandler demo_package (bare ''ghost.png'') (server [(''cat.png'', ''x'')] []))) = 204
   \<and> body (fst (readHandler demo_package (bare ''ghost.png'') (server [(''cat.png'', ''x'')] []))) = []
   \<and> calls (snd (readHandler demo_package (bare ''ghost.png'') (server [(''cat.png'', ''x'')] [])))
       = [ReadCall ''ghost.png'']"
proof -
  have r: "cs_Read demo_package (vars_id (bare ''ghost.png'')) (store (server [(''cat.png'', ''x'')] []))
      = (Inr [], \<lparr>objects = [(''cat.png'', ''x'')], faults = []\<rparr>)"
    by (simp add: demo_defs)
  have n: "NewImages demo_package [] = Inr []"
    by (simp add: demo_defs)
  have s: "calls (server [(''cat.png'', ''x'')] []) = [] \<and> vars_id (bare ''ghost.png'') = ''ghost.png''"
    by (simp add: server_def bare_def)
  from readHandler_no_content [OF r n] r n s
  show ?thesis by simp
qed

subsection \<open>The update route\<close>

text \<open>
  Claim C5. An update request with a well-formed file field first calls \<^verbatim>\<open>Delete\<close> on
  the id. If that fails, the response is 500 and nothing else is called. If it succeeds,
  the handler calls \<^verbatim>\<open>Create\<close> with the name and the content of the uploaded file and
  makes no further call: when \<^verbatim>\<open>Create\<close> fails the response is 500 and the storage is
  left as the failed \<^verbatim>\<open>Create\<close> left it after the deletion, with nothing restored; when
  it succeeds the response is 200 with an empty body.
\<close>

theorem updateHandler_delete_then_create:
  assumes "FormFile r = Inr h"
    and "cs_Delete p (vars_id r) (store srv) = (e1, s1)"
    and "cs_Create p (Filename h) (content h) s1 = (e2, s2)"
  shows "(case e1 of
            Some err \<Rightarrow>
              status (fst (updateHandler p r srv)) = 500
              \<and> calls (snd (updateHandler p r srv)) = calls srv @ [DeleteCall (vars_id r)]
              \<and> store (snd (updateHandler p r srv)) = s1
          | None \<Rightarrow>
              calls (snd (updateHandler p r srv)) =
                calls srv @ [DeleteCall (vars_id r), CreateCall (Filename h) (content h)]
              \<and> store (snd (updateHandler p r srv)) = s2
              \<and> (case e2 of
                    Some err \<Rightarrow> status (fst (updateHandler p r srv)) = 500
                  | None \<Rightarrow> status (fst (updateHandler p r srv)) = 200
                            \<and> body (fst (updateHandler p r srv)) = []))"
  using assms
  by (simp add: updateHandler_def Let_def call_Delete_eq call_Create_eq writeErrorMsg_status
      writeErrorMsg_calls writeErrorMsg_store writeResponse_def StatusOK_def split: option.splits)

theorem updateHandler_delete_then_create_witness:
  "cs_Delete demo_package ''dog.png'' (store (server [(''dog.png'', ''B1'')] [None, Some ''quota exceeded'']))
      = (None, \<lparr>objects = [], faults = [Some ''quota exceeded'']\<rparr>)
   \<and> cs_Create demo_package ''dog.png'' ''B2'' \<lparr>objects = [], faults = [Some ''quota exceeded'']\<rparr>
      = (Some ''quota exceeded'', \<lparr>objects = [], faults = []\<rparr>)
   \<and> status (fst (updateHandler demo_package (upload ''dog.png'' ''dog.png'' ''image/png'' ''B2'')
        (server [(''dog.png'', ''B1'')] [None, Some ''quota exceeded'']))) = 500
   \<and> calls (snd (updateHandler demo_package (upload ''dog.png'' ''dog.png'' ''image/png'' ''B2'')
        (server [(''dog.png'', ''B1'')] [None, Some ''quota exceeded''])))
       = [DeleteCall ''dog.png'', CreateCall ''dog.png'' ''B2'']
   \<and> map_of (objects (store (snd (updateHandler demo_package (upload ''dog.png'' ''dog.png'' ''image/png'' ''B2'')
        (server [(''dog.png'', ''B1'')] [None, Some ''quota exceeded''])))))  ''dog.png'' = None
   \<and> status (fst (updateHandler demo_package (upload ''dog.png'' ''dog.png'' ''image/png'' ''B2'')
        (server [(''dog.png'', ''B1'')] []))) = 200
   \<and> body (fst (updateHandler demo_package (upload ''dog.png'' ''dog.png'' ''image/png'' ''B2'')
        (server [(''dog.png'', ''B1'')] []))) = []
   \<and> map_of (objects (store (snd (updateHandler demo_package (upload ''dog.png'' ''dog.png'' ''image/png'' ''B2'')
        (server [(''dog.png'', ''B1'')] []))))) ''dog.png'' = Some ''B2''
   \<and> status (fst (updateHandler demo_package (upload ''dog.png'' ''dog.png'' ''image/png'' ''B2'')
        (server [(''dog.png'', ''B1'')] [Some ''denied'']))) = 500
   \<and> calls (snd (updateHandler demo_package (upload ''dog.png'' ''dog.png'' ''image/png'' ''B2'')
        (server [(''dog.png'', ''B1'')] [Some ''denied''])))
       = [DeleteCall ''dog.png'']"
proof -
  let ?r = "upload ''dog.png'' ''dog.png'' ''image/png'' ''B2''"
  let ?h = "\<lparr>Filename = ''dog.png'', ContentType = ''image/png'', content = ''B2''\<rparr>"
  have f: "FormFile ?r = Inr ?h"
    by (simp add: upload_def)
  have v: "vars_id ?r = ''dog.png''"
    by (simp add: upload_def)
  have d1: "cs_Delete demo_package (vars_id ?r) (store (server [(''dog.png'', ''B1'')] [None, Some ''quota exceeded'']))
      = (None, \<lparr>objects = [], faults = [Some ''quota exceeded'']\<rparr>)"
    by (simp add: demo_defs)
  have c1: "cs_Create demo_package (Filename ?h) (content ?h) \<lparr>objects = [], faults = [Some ''quota exceeded'']\<rparr>
      = (Some ''quota exceeded'', \<lparr>objects = [], faults = []\<rparr>)"
    by (simp add: demo_defs)
  have d2: "cs_Delete demo_package (vars_id ?r) (store (server [(''dog.png'', ''B1'')] []))
      = (None, \<lparr>objects = [], faults = []\<rparr>)"
    by (simp add: demo_defs)
  have c2: "cs_Create demo_package (Filename ?h) (content ?h) \<lparr>objects = [], faults = []\<rparr>
      = (None, \<lparr>objects = [(''dog.png'', ''B2'')], faults = []\<rparr>)"
    by (simp add: demo_defs)
  have d3: "cs_Delete demo_package (vars_id ?r) (store (server [(''dog.png'', ''B1'')] [Some ''denied'']))
      = (Some ''denied'', \<lparr>objects = [(''dog.png'', ''B1'')], faults = []\<rparr>)"
    by (simp add: demo_defs)
  have c3: "cs_Create demo_package (Filename ?h) (content ?h) \<lparr>objects = [(''dog.png'', ''B1'')], faults = []\<rparr>
      = (None, \<lparr>objects = [(''dog.png'', ''B2'')], faults = []\<rparr>)"
    by (simp add: demo_defs)
  have s: "calls (server [(''dog.png'', ''B1'')] [None, Some ''quota exceeded'']) = []
      \<and> calls (server [(''dog.png'', ''B1'')] []) = []
      \<and> calls (server [(''dog.png'', ''B1'')] [Some ''denied'']) = []"
    by (simp add: server_def)
  from updateHandler_delete_then_create [OF f d1 c1] updateHandler_delete_then_create [OF f d2 c2]
    updateHandler_delete_then_create [OF f d3 c3] d1 c1 s v
  show ?thesis by simp
qed

text \<open>
  Claim C6. The claim is that the update route checks the content type of the uploaded
  file against the allow-list before it calls the storage gateway, as the create route
  does. \<open>updateHandler\<close> makes no such check: for a file of type \<^verbatim>\<open>text/html\<close>, which the
  validator refuses and the create route answers with 500, the update route deletes the
  old object, stores the file and answers 200. The result of \<open>updateHandler\<close> does not
  depend on the content type of the file at all.
\<close>

theorem updateHandler_skips_validation:
  "updateHandler p (r\<lparr>FormFile := Inr (h\<lparr>ContentType := t\<rparr>)\<rparr>) srv
     = updateHandler p (r\<lparr>FormFile := Inr h\<rparr>) srv
   \<and> \<not> Valid (NewMimeMap allowed_types) ''text/html''
   \<and> status (fst (createHandler demo_package allowed_types
        (upload [] ''dog.png'' ''text/html'' ''<html>'') (server [(''dog.png'', ''x'')] []))) = 500
   \<and> status (fst (updateHandler demo_package
        (upload ''dog.png'' ''dog.png'' ''text/html'' ''<html>'') (server [(''dog.png'', ''x'')] []))) = 200
   \<and> calls (snd (updateHandler demo_package
        (upload ''dog.png'' ''dog.png'' ''text/html'' ''<html>'') (server [(''dog.png'', ''x'')] [])))
       = [DeleteCall ''dog.png'', CreateCall ''dog.png'' ''<html>'']
   \<and> objects (store (snd (updateHandler demo_package
        (upload ''dog.png'' ''dog.png'' ''text/html'' ''<html>'') (server [(''dog.png'', ''x'')] []))))
       = [(''dog.png'', ''<html>'')]"
proof -
  have "updateHandler p (r\<lparr>FormFile := Inr (h\<lparr>ContentType := t\<rparr>)\<rparr>) srv
      = updateHandler p (r\<lparr>FormFile := Inr h\<rparr>) srv"
    by (simp add: updateHandler_def Let_def split: prod.splits option.splits)
  then show ?thesis
    by (simp add: demo_defs handler_defs mime_defs)
qed

subsection \<open>The delete route\<close>



















subsection \<open>The body of an error response\<close>

text \<open>
  Claim C7. The claim is that on every failure path the response has status 500 and its
  body is the JSON object with the one member \<^verbatim>\<open>"error"\<close>, a valid JSON document for
  every message. \<open>writeErrorMsg\<close> puts the message between the quotes as it is: for an
  upload whose content type is \<^verbatim>\<open>text/plain; charset="utf-8"\<close> the status is 500, but the
  quotes of the content type end the JSON string early and the body is not a JSON object
  of that shape. For a message without such characters (content type \<^verbatim>\<open>text/plain\<close>)
  the body is one.
\<close>

theorem writeErrorMsg_not_json:
  \<open>status (fst (createHandler p allowed_types
       (upload [] ''a.txt'' ''text/plain; charset="utf-8"'' ''hello'') srv)) = 500
   \<and> body (fst (createHandler p allowed_types
       (upload [] ''a.txt'' ''text/plain; charset="utf-8"'' ''hello'') srv)) =
      ''{"error":"invalid image type, want one of image/png, image/jpeg, image/gif got : text/plain; charset="utf-8""}''
   \<and> \<not> error_object (body (fst (createHandler p allowed_types
       (upload [] ''a.txt'' ''text/plain; charset="utf-8"'' ''hello'') srv)))
   \<and> error_object (body (fst (createHandler p allowed_types
       (upload [] ''a.txt'' ''text/plain'' ''hello'') srv)))\<close>
  by (simp add: upload_def handler_defs mime_defs error_object_def byte_def dquote_def backslash_def
      between_def)

subsection \<open>Create, then read\<close>

lemma map_of_filter_out: "map_of (filter (\<lambda>(n, c). n \<noteq> k) xs) k = None"
  by (induction xs) auto

text \<open>
  Claim C8. Over the storage gateway and the image mapper as the specification describes
  them: when a file with name \<open>N\<close>, content \<open>C\<close> and an allowed content type is posted to
  \<^verbatim>\<open>/api/v1/image\<close> and the backend reports no fault, the response is 201 and the bucket
  holds \<open>C\<close> under \<open>N\<close>; a following \<^verbatim>\<open>GET /api/v1/image/N\<close> answers with what
  \<open>writeJSON\<close> writes, with status 200, for the image whose identifier is \<open>N\<close> and whose
  content is \<open>C\<close>.
\<close>

theorem create_then_read:
  assumes "FormFile r = Inr h" and "ContentType h \<in> set allowed_types"
    and "faults (store srv) = []" and "vars_id g = Filename h"
  shows "status (fst (createHandler (bucket_package J Js) ks r srv)) = 201
    \<and> map_of (objects (store (snd (createHandler (bucket_package J Js) ks r srv)))) (Filename h)
        = Some (content h)
    \<and> fst (readHandler (bucket_package J Js) g (snd (createHandler (bucket_package J Js) ks r srv)))
        = fst (writeJSON J \<lparr>img_id = Filename h, img_name = Filename h, img_content = content h\<rparr>
                 StatusOK srv)"
proof -
  let ?P = "bucket_package J Js"
  let ?b = "(store srv)\<lparr>objects :=
      filter (\<lambda>(n, c). n \<noteq> Filename h) (objects (store srv)) @ [(Filename h, content h)]\<rparr>"
  let ?srv1 = "srv\<lparr>store := ?b, calls := calls srv @ [CreateCall (Filename h) (content h)]\<rparr>"
  let ?img = "\<lparr>img_id = Filename h, img_name = Filename h, img_content = content h\<rparr>"
  have v: "Valid (NewMimeMap allowed_types) (ContentType h)"
    using assms(2) by (simp add: Valid_iff)
  have c: "cs_Create ?P (Filename h) (content h) (store srv) = (None, ?b)"
    using assms(3) by (simp add: bucket_package_def bucket_Create_def next_fault_def)
  have cr: "createHandler ?P ks r srv = writeResponse StatusCreated [] ?srv1"
    using assms(1) v by (simp add: createHandler_def Let_def call_Create_eq [OF c])
  have s1: "snd (createHandler ?P ks r srv) = ?srv1\<lparr>logged := logged srv @ [Sprintf []]\<rparr>"
    by (simp add: cr writeResponse_def StatusCreated_def StatusOK_def)
  have rd0: "cs_Read ?P (vars_id g) (store (?srv1\<lparr>logged := logged srv @ [Sprintf []]\<rparr>))
      = (Inr [\<lparr>od_name = Filename h, od_content = content h\<rparr>], ?b)"
    using assms(3,4)
    by (simp add: bucket_package_def bucket_Read_def next_fault_def map_of_filter_out map_add_def)
  have rd: "cs_Read ?P (vars_id g) (store (snd (createHandler ?P ks r srv)))
      = (Inr [\<lparr>od_name = Filename h, od_content = content h\<rparr>], ?b)"
    unfolding s1 by (rule rd0)
  have ni: "NewImages ?P [\<lparr>od_name = Filename h, od_content = content h\<rparr>] = Inr [?img]"
    by (simp add: bucket_package_def NewImage_def)
  have ij: "Image_JSON ?P = J"
    by (simp add: bucket_package_def)
  have "fst (readHandler ?P g (snd (createHandler ?P ks r srv))) = fst (writeJSON J ?img StatusOK srv)"
    by (simp add: readHandler_def Let_def call_Read_eq [OF rd] ni ij writeJSON_def writeErrorMsg_def
        fst_writeResponse split: sum.splits)
  moreover have "status (fst (createHandler ?P ks r srv)) = 201"
    by (simp add: cr fst_writeResponse StatusCreated_def)
  moreover have "map_of (objects (store (snd (createHandler ?P ks r srv)))) (Filename h) = Some (content h)"
    unfolding s1 by (simp add: map_of_filter_out map_add_def)
  ultimately show ?thesis by simp
qed

theorem create_then_read_witness:
  "FormFile (upload [] ''cat.png'' ''image/png'' ''PNGDATA'')
      = Inr \<lparr>Filename = ''cat.png'', ContentType = ''image/png'', content = ''PNGDATA''\<rparr>
   \<and> ''image/png'' \<in> set allowed_types
   \<and> faults (store (server [(''cat.png'', ''old'')] [])) = []
   \<and> status (fst (createHandler demo_package allowed_types
        (upload [] ''cat.png'' ''image/png'' ''PNGDATA'') (server [(''cat.png'', ''old'')] []))) = 201
   \<and> status (fst (readHandler demo_package (bare ''cat.png'')
        (snd (createHandler demo_package allowed_types
           (upload [] ''cat.png'' ''image/png'' ''PNGDATA'') (server [(''cat.png'', ''old'')] []))))) = 200
   \<and> body (fst (readHandler demo_package (bare ''cat.png'')
        (snd (createHandler demo_package allowed_types
           (upload [] ''cat.png'' ''image/png'' ''PNGDATA'') (server [(''cat.png'', ''old'')] []))))) = ''PNGDATA''"
proof -
  let ?r = "upload [] ''cat.png'' ''image/png'' ''PNGDATA''"
  let ?h = "\<lparr>Filename = ''cat.png'', ContentType = ''image/png'', content = ''PNGDATA''\<rparr>"
  have f: "FormFile ?r = Inr ?h"
    by (simp add: upload_def)
  have a: "ContentType ?h \<in> set allowed_types"
    by (simp add: allowed_types_def)
  have n: "faults (store (server [(''cat.png'', ''old'')] [])) = []"
    by (simp add: server_def)
  have g: "vars_id (bare ''cat.png'') = Filename ?h"
    by (simp add: bare_def)
  have w: "fst (writeJSON (\<lambda>i. Inr (img_content i))
        \<lparr>img_id = Filename ?h, img_name = Filename ?h, img_content = content ?h\<rparr> StatusOK
        (server [(''cat.png'', ''old'')] []))
      = \<lparr>status = 200,
         headers = [(''Content-Type'', ''application/json; charset=utf-8''),
                    (''Access-Control-Allow-Headers'',
                     ''Content-Type,access-control-allow-origin, access-control-allow-headers'')],
         written = ''PNGDATA'', body = ''PNGDATA''\<rparr>"
    by (simp add: writeJSON_def fst_writeResponse StatusOK_def)
  from create_then_read [OF f a n g, of "\<lambda>i. Inr (img_content i)"
      "\<lambda>is. Inr (concat (map img_content is))" allowed_types] f a n w
  show ?thesis by (simp add: demo_package_def)
qed

end
